theory Spec2Isabelle
  imports Main "HOL-Library.Word" "HOL-Library.Monad_Syntax"
begin

section \<open>The DCMTK wrapper functions of crgodicom\<close>

text \<open>
  The two C files under \<^verbatim>\<open>internal/dcmtk\<close> export one reader,
  \<^verbatim>\<open>read_dicom_file_simple\<close>, and one writer, \<^verbatim>\<open>write_dicom_file_simple\<close>.
  Both are placeholders: the reader copies fixed strings and numbers into its
  out-parameters and returns 0, the writer has an empty body and returns 0. Neither
  opens the file its \<^verbatim>\<open>filename\<close> names.
\<close>

subsection \<open>C data\<close>

text \<open>
  \<^verbatim>\<open>int\<close> is a 32-bit two's complement integer, \<^verbatim>\<open>unsigned char\<close> a byte. A
  \<^verbatim>\<open>char\<close> array is the list of its cells, so its length is its capacity. A file
  system maps a file name to the bytes of the file, or to nothing when there is no
  such file.
\<close>

type_synonym c_int = "32 word"
type_synonym byte = "8 word"
type_synonym buffer = "char list"
type_synonym filesystem = "string \<rightharpoonup> byte list"

definition NUL :: char where
  "NUL = CHR 0x00"

text \<open>
  \<^verbatim>\<open>strcpy(dst, src)\<close> writes the characters of \<open>src\<close> and a terminating NUL over
  the front of \<open>dst\<close> and leaves the cells behind them as they are; \<open>src\<close> is a C
  string, the characters before its NUL. When \<open>dst\<close> has fewer than \<open>length src + 1\<close>
  cells the copy runs past the end of the array, which C leaves undefined: the model
  has no result there.
\<close>

definition strcpy :: "buffer \<Rightarrow> string \<Rightarrow> buffer option" where
  "strcpy dst src =
     (if length src < length dst
      then Some (src @ NUL # drop (Suc (length src)) dst)
      else None)"

text \<open>The C string an array holds: its cells up to the first NUL.\<close>

definition c_str :: "buffer \<Rightarrow> string" where
  "c_str b = takeWhile (\<lambda>c. c \<noteq> NUL) b"

subsection \<open>The writer\<close>

text \<open>
  The arguments of \<^verbatim>\<open>write_dicom_file_simple\<close> after \<^verbatim>\<open>filename\<close>. A
  \<^verbatim>\<open>const char*\<close> argument is the C string it points to; \<^verbatim>\<open>pixel_data\<close> is the
  byte array it points to, or \<open>None\<close> for a NULL pointer; \<^verbatim>\<open>pixel_data_length\<close> is
  whatever the caller says, not tied to the array.
\<close>

record write_args =
  patient_name :: string
  patient_id :: string
  study_uid :: string
  series_uid :: string
  instance_uid :: string
  modality :: string
  width :: c_int
  height :: c_int
  bits_allocated :: c_int
  pixel_data :: "byte list option"
  pixel_data_length :: c_int

text \<open>
  The body is a single \<^verbatim>\<open>return 0\<close>. The call is given the file system and the
  caller's memory behind its arguments, and hands both back with the return value.
\<close>

definition write_dicom_file_simple ::
  "filesystem \<Rightarrow> string \<Rightarrow> write_args \<Rightarrow> c_int \<times> filesystem \<times> write_args" where
  "write_dicom_file_simple fs filename a = (0, fs, a)"

subsection \<open>The reader\<close>

text \<open>
  The objects behind the eleven out-parameters of \<^verbatim>\<open>read_dicom_file_simple\<close>:
  six \<^verbatim>\<open>char\<close> arrays, three \<^verbatim>\<open>int\<close>s, the pointer \<^verbatim>\<open>*pixel_data\<close> (the array
  it points to, \<open>None\<close> for NULL) and the \<^verbatim>\<open>int\<close> \<^verbatim>\<open>*pixel_data_length\<close>. The
  out-pointers are valid and the objects separate: none is NULL and no two alias.
\<close>

record out_params =
  patient_name :: buffer
  patient_id :: buffer
  study_uid :: buffer
  series_uid :: buffer
  instance_uid :: buffer
  modality :: buffer
  width :: c_int
  height :: c_int
  bits_per_pixel :: c_int
  pixel_data :: "byte list option"
  pixel_data_length :: c_int

text \<open>
  The statements of the body in their order. The file system and \<^verbatim>\<open>filename\<close>
  are arguments of the model because the properties below speak about the file; the
  body uses neither.
\<close>

definition read_dicom_file_simple ::
  "filesystem \<Rightarrow> string \<Rightarrow> out_params \<Rightarrow> (c_int \<times> out_params) option" where
  "read_dicom_file_simple fs filename out =
     do {
       pn \<leftarrow> strcpy (patient_name out) ''Test Patient'';
       pid \<leftarrow> strcpy (patient_id out) ''TEST001'';
       stu \<leftarrow> strcpy (study_uid out) ''1.2.3.4.5'';
       ser \<leftarrow> strcpy (series_uid out) ''1.2.3.4.5.1'';
       ins \<leftarrow> strcpy (instance_uid out) ''1.2.3.4.5.1.1'';
       mo \<leftarrow> strcpy (modality out) ''CT'';
       Some (0, out\<lparr>patient_name := pn, patient_id := pid, study_uid := stu,
                     series_uid := ser, instance_uid := ins, modality := mo,
                     width := 512, height := 512, bits_per_pixel := 16,
                     pixel_data := None, pixel_data_length := 0\<rparr>)
     }"

text \<open>\<^verbatim>\<open>test_dcmtk_simple\<close> returns 42.\<close>

definition test_dcmtk_simple :: c_int where
  "test_dcmtk_simple = 42"

subsection \<open>Calls and what a caller reads back\<close>

text \<open>
  Every \<^verbatim>\<open>strcpy\<close> of the reader stays inside its array: the six arrays have
  room for the string copied into them and its NUL. This is what C asks of the caller.
\<close>

definition room :: "out_params \<Rightarrow> bool" where
  "room out \<longleftrightarrow>
     length ''Test Patient'' < length (patient_name out) \<and>
     length ''TEST001'' < length (patient_id out) \<and>
     length ''1.2.3.4.5'' < length (study_uid out) \<and>
     length ''1.2.3.4.5.1'' < length (series_uid out) \<and>
     length ''1.2.3.4.5.1.1'' < length (instance_uid out) \<and>
     length ''CT'' < length (modality out)"

text \<open>
  The decoded record a caller takes from the out-parameters after the call: the C
  string in each array and the numbers, in the shape the writer takes them.
\<close>

definition image_record :: "out_params \<Rightarrow> write_args" where
  "image_record out =
     \<lparr>write_args.patient_name = c_str (patient_name out),
      write_args.patient_id = c_str (patient_id out),
      write_args.study_uid = c_str (study_uid out),
      write_args.series_uid = c_str (series_uid out),
      write_args.instance_uid = c_str (instance_uid out),
      write_args.modality = c_str (modality out),
      write_args.width = width out,
      write_args.height = height out,
      write_args.bits_allocated = bits_per_pixel out,
      write_args.pixel_data = pixel_data out,
      write_args.pixel_data_length = pixel_data_length out\<rparr>"

text \<open>The values the reader's body names.\<close>

definition dummy_data :: write_args where
  "dummy_data =
     \<lparr>write_args.patient_name = ''Test Patient'',
      write_args.patient_id = ''TEST001'',
      write_args.study_uid = ''1.2.3.4.5'',
      write_args.series_uid = ''1.2.3.4.5.1'',
      write_args.instance_uid = ''1.2.3.4.5.1.1'',
      write_args.modality = ''CT'',
      write_args.width = 512,
      write_args.height = 512,
      write_args.bits_allocated = 16,
      write_args.pixel_data = None,
      write_args.pixel_data_length = 0\<rparr>"

text \<open>Out-parameters of a sample caller: six zeroed arrays of 65 cells.\<close>

definition blank_out :: out_params where
  "blank_out =
     \<lparr>patient_name = replicate 65 NUL, patient_id = replicate 65 NUL,
      study_uid = replicate 65 NUL, series_uid = replicate 65 NUL,
      instance_uid = replicate 65 NUL, modality = replicate 65 NUL,
      width = 0, height = 0, bits_per_pixel = 0,
      pixel_data = None, pixel_data_length = 0\<rparr>"

text \<open>The bytes of a file, none when the file does not exist.\<close>

definition file_bytes :: "filesystem \<Rightarrow> string \<Rightarrow> byte list" where
  "file_bytes fs name = (case fs name of None \<Rightarrow> [] | Some B \<Rightarrow> B)"

subsection \<open>Notions of the specification\<close>

text \<open>
  The specification speaks of a Part-10 file: a 128-byte preamble, the four bytes
  \<^verbatim>\<open>DICM\<close>, then the file-meta group. The definitions below state its words; no
  code of the two wrappers computes them.
\<close>

definition dicm_magic :: "byte list" where
  "dicm_magic = [0x44, 0x49, 0x43, 0x4D]"

definition has_magic :: "byte list \<Rightarrow> bool" where
  "has_magic B \<longleftrightarrow> take 4 (drop 128 B) = dicm_magic"

text \<open>
  A UID: components separated by dots, each a non-empty run of digits with no leading
  zero unless it is the single digit 0, at most 64 characters in all.
\<close>

primrec components :: "string \<Rightarrow> string list" where
  "components [] = [[]]"
| "components (c # cs) =
     (if c = CHR ''.'' then [] # components cs
      else (case components cs of [] \<Rightarrow> [[c]] | w # ws \<Rightarrow> (c # w) # ws))"

definition is_digit :: "char \<Rightarrow> bool" where
  "is_digit c \<longleftrightarrow> c \<in> set ''0123456789''"

definition numeric_component :: "string \<Rightarrow> bool" where
  "numeric_component w =
     (case w of
        [] \<Rightarrow> False
      | c # cs \<Rightarrow> list_all is_digit (c # cs) \<and> (if c = CHR ''0'' then cs = [] else True))"

definition valid_uid :: "string \<Rightarrow> bool" where
  "valid_uid u \<longleftrightarrow> length u \<le> 64 \<and> list_all numeric_component (components u)"

text \<open>The length of uncompressed pixel data, as the specification computes it.\<close>

definition expected_pixel_length :: "nat \<Rightarrow> nat \<Rightarrow> nat \<Rightarrow> nat \<Rightarrow> nat \<Rightarrow> nat" where
  "expected_pixel_length rows columns bits_alloc samples_per_pixel frames =
     rows * columns * bits_alloc div 8 * samples_per_pixel * frames"

text \<open>
  The file-meta group-length element (0002,0000) sits right behind the magic, in
  explicit-VR little-endian: tag, the VR code \<^verbatim>\<open>UL\<close>, a two-byte length 4 and a
  four-byte value.
\<close>

definition le32 :: "byte list \<Rightarrow> nat" where
  "le32 bs = foldr (\<lambda>b n. unat b + 256 * n) bs 0"

definition file_meta_group_length :: "byte list \<Rightarrow> nat option" where
  "file_meta_group_length B =
     (let e = take 12 (drop 132 B)
      in if length e = 12 \<and> take 8 e = [0x02, 0x00, 0x00, 0x00, 0x55, 0x4C, 0x04, 0x00]
         then Some (le32 (drop 8 e))
         else None)"

text \<open>
  A sample file: a zero preamble, the magic and a group-length element of value 100
  with no file-meta element behind it.
\<close>

definition stale_file :: "byte list" where
  "stale_file =
     replicate 128 0 @ dicm_magic @
     [0x02, 0x00, 0x00, 0x00, 0x55, 0x4C, 0x04, 0x00, 100, 0, 0, 0]"

section \<open>Facts about the model\<close>

subsection \<open>Copying a string\<close>

lemma takeWhile_upto_first:
  "z \<notin> set xs \<Longrightarrow> takeWhile (\<lambda>c. c \<noteq> z) (xs @ z # ys) = xs"
  by (induction xs) auto

lemma strcpy_Some_iff:
  "strcpy dst src = Some b \<longleftrightarrow>
     length src < length dst \<and> b = src @ NUL # drop (Suc (length src)) dst"
  by (auto simp: strcpy_def)

lemma length_strcpy: "strcpy dst src = Some b \<Longrightarrow> length b = length dst"
  by (auto simp: strcpy_Some_iff)

lemma c_str_strcpy:
  assumes "strcpy dst src = Some b" and "NUL \<notin> set src"
  shows "c_str b = src"
proof -
  from assms(1) have "b = src @ NUL # drop (Suc (length src)) dst"
    by (simp add: strcpy_Some_iff)
  with assms(2) show ?thesis
    by (simp add: c_str_def takeWhile_upto_first)
qed

subsection \<open>The reader, statement by statement\<close>

lemma read_Some_fields:
  assumes "read_dicom_file_simple fs filename out = Some (r, rec)"
  shows "r = 0"
    and "strcpy (patient_name out) ''Test Patient'' = Some (patient_name rec)"
    and "strcpy (patient_id out) ''TEST001'' = Some (patient_id rec)"
    and "strcpy (study_uid out) ''1.2.3.4.5'' = Some (study_uid rec)"
    and "strcpy (series_uid out) ''1.2.3.4.5.1'' = Some (series_uid rec)"
    and "strcpy (instance_uid out) ''1.2.3.4.5.1.1'' = Some (instance_uid rec)"
    and "strcpy (modality out) ''CT'' = Some (modality rec)"
    and "width rec = 512" and "height rec = 512" and "bits_per_pixel rec = 16"
    and "pixel_data rec = None" and "pixel_data_length rec = 0"
  using assms
  by (auto simp: read_dicom_file_simple_def split: bind_splits)

lemma read_room:
  "room out \<Longrightarrow> \<exists>rec. read_dicom_file_simple fs filename out = Some (0, rec)"
  by (simp add: read_dicom_file_simple_def room_def strcpy_def)

lemma read_Some_room:
  assumes "read_dicom_file_simple fs filename out = Some (r, rec)"
  shows "room out" and "room rec"
  using read_Some_fields(2-7)[OF assms]
  by (auto simp: room_def strcpy_Some_iff)

lemma read_defined_iff:
  "(\<exists>r rec. read_dicom_file_simple fs filename out = Some (r, rec)) \<longleftrightarrow> room out"
  using read_room [of out fs filename] read_Some_room(1) [of fs filename out]
  by blast

lemma image_record_read:
  assumes "read_dicom_file_simple fs filename out = Some (r, rec)"
  shows "image_record rec = dummy_data"
  using read_Some_fields[OF assms]
  by (simp add: image_record_def dummy_data_def c_str_strcpy NUL_def)

lemma room_blank_out: "room blank_out"
  by (simp add: room_def blank_out_def)


subsection \<open>The specification's notions on samples\<close>

lemma has_magic_nth:
  assumes "has_magic B"
  shows "132 \<le> length B" and "B ! 128 = 0x44"
proof -
  from assms have eq: "take 4 (drop 128 B) = dicm_magic"
    by (simp add: has_magic_def)
  then have "length (take 4 (drop 128 B)) = 4"
    by (simp add: dicm_magic_def)
  then show len: "132 \<le> length B" by simp
  then have "take 4 (drop 128 B) ! 0 = B ! 128" by simp
  then show "B ! 128 = 0x44" by (simp add: eq dicm_magic_def)
qed

lemma zeros_no_magic: "\<not> has_magic (replicate 132 0)"
  using has_magic_nth(2) [of "replicate 132 0"] by auto

lemma short_no_magic: "length B < 132 \<Longrightarrow> \<not> has_magic B"
  using has_magic_nth(1) [of B] by auto

lemma valid_uid_length: "valid_uid u \<Longrightarrow> length u \<le> 64"
  by (simp add: valid_uid_def)

lemma components_nonempty: "components u \<noteq> []"
  by (induction u) (auto split: list.splits)

lemma components_chars:
  "c \<in> set u \<Longrightarrow> c = CHR ''.'' \<or> (\<exists>w \<in> set (components u). c \<in> set w)"
proof (induction u)
  case Nil
  then show ?case by simp
next
  case (Cons d u)
  then show ?case
    by (cases "components u") (auto split: if_splits)
qed

lemma numeric_component_digits: "numeric_component w \<Longrightarrow> c \<in> set w \<Longrightarrow> is_digit c"
  by (auto simp: numeric_component_def list_all_iff split: list.splits)

lemma valid_uid_chars:
  assumes "valid_uid u" and "c \<in> set u"
  shows "c = CHR ''.'' \<or> is_digit c"
proof -
  from components_chars [OF assms(2)]
  consider "c = CHR ''.''" | w where "w \<in> set (components u)" "c \<in> set w"
    by blast
  then show ?thesis
  proof cases
    case 1
    then show ?thesis by simp
  next
    case 2
    with assms(1) have "numeric_component w"
      by (simp add: valid_uid_def list_all_iff)
    with 2(2) show ?thesis
      using numeric_component_digits by blast
  qed
qed

lemma valid_study_uid: "valid_uid ''1.2.3.4.5''"
  by code_simp

lemma valid_series_uid: "valid_uid ''1.2.3.4.5.1''"
  by code_simp

lemma valid_instance_uid: "valid_uid ''1.2.3.4.5.1.1''"
  by code_simp

lemma valid_sample_uid: "valid_uid ''1.2.840.10008.1.1''"
  by code_simp

lemma invalid_empty_component: "\<not> valid_uid ''1.2..3''"
  by code_simp

lemma invalid_leading_zero: "\<not> valid_uid ''1.02.3''"
  by code_simp

lemma no_group_length_in_nothing: "file_meta_group_length [] = None"
  by (simp add: file_meta_group_length_def)

lemma stale_file_magic: "has_magic stale_file"
  by (simp add: has_magic_def stale_file_def dicm_magic_def)

lemma stale_file_group_length: "file_meta_group_length stale_file = Some 100"
  by (simp add: file_meta_group_length_def stale_file_def dicm_magic_def le32_def)

section \<open>The claims\<close>

subsection \<open>Round trip\<close>

text \<open>
  C1, as the code has it. The writer produces no bytes, so there is no serialized
  buffer to decode: when a read has returned a record and that record is written under
  any file name, the write returns 0, the file system is as before (the file of that
  name holds what it held, nothing if it did not exist) and the arguments are untouched.
  A second read of that name, into any out-parameters with room, still returns 0 with
  the same decoded record, since the reader's record is the same for every input. The
  code has no transfer-syntax argument.
\<close>

theorem round_trip_without_bytes:
  assumes "read_dicom_file_simple fs filename out = Some (r, rec)"
    and "write_dicom_file_simple fs filename' (image_record rec) = (r', fs', a')"
    and "room out'"
  shows "r' = 0 \<and> fs' = fs \<and> fs' filename' = fs filename' \<and> a' = image_record rec \<and>
         (\<exists>rec'. read_dicom_file_simple fs' filename' out' = Some (0, rec') \<and>
                 image_record rec' = image_record rec)"
proof -
  from assms(2) have w: "r' = 0" "fs' = fs" "a' = image_record rec"
    by (simp_all add: write_dicom_file_simple_def)
  obtain rec' where
    again: "read_dicom_file_simple fs' filename' out' = Some (0, rec')"
    using read_room [OF assms(3)] by blast
  have "image_record rec' = image_record rec"
    using image_record_read [OF again] image_record_read [OF assms(1)] by simp
  with w again show ?thesis by blast
qed

theorem round_trip_without_bytes_witness:
  "[''in.dcm'' \<mapsto> stale_file] ''in.dcm'' = Some stale_file \<and>
   (\<exists>rec. read_dicom_file_simple [''in.dcm'' \<mapsto> stale_file] ''in.dcm'' blank_out
            = Some (0, rec) \<and>
      write_dicom_file_simple [''in.dcm'' \<mapsto> stale_file] ''out.dcm'' (image_record rec) =
        (0, [''in.dcm'' \<mapsto> stale_file], image_record rec) \<and>
      room blank_out \<and>
      [''in.dcm'' \<mapsto> stale_file] ''out.dcm'' = None \<and>
      (\<exists>rec'. read_dicom_file_simple [''in.dcm'' \<mapsto> stale_file] ''out.dcm'' blank_out
                = Some (0, rec') \<and>
              image_record rec' = image_record rec))"
proof -
  obtain rec where
    r: "read_dicom_file_simple [''in.dcm'' \<mapsto> stale_file] ''in.dcm'' blank_out = Some (0, rec)"
    using read_room [OF room_blank_out] by blast
  have w: "write_dicom_file_simple [''in.dcm'' \<mapsto> stale_file] ''out.dcm'' (image_record rec) =
        (0, [''in.dcm'' \<mapsto> stale_file], image_record rec)"
    by (simp add: write_dicom_file_simple_def)
  have absent: "[''in.dcm'' \<mapsto> stale_file] ''out.dcm'' = None"
    by simp
  have present: "[''in.dcm'' \<mapsto> stale_file] ''in.dcm'' = Some stale_file"
    by simp
  from round_trip_without_bytes [OF r w room_blank_out] r w room_blank_out absent present
  show ?thesis by blast
qed

text \<open>
  The claim as stated fails on the sample file: it is read with return value 0, and
  writing the record read from it under a fresh name returns 0 and leaves no file of
  that name, so there are no written bytes to decode.
\<close>

theorem round_trip_counterexample:
  "map_option fst
     (read_dicom_file_simple [''in.dcm'' \<mapsto> stale_file] ''in.dcm'' blank_out) = Some 0 \<and>
   map_option (image_record \<circ> snd)
     (read_dicom_file_simple [''in.dcm'' \<mapsto> stale_file] ''in.dcm'' blank_out)
     = Some dummy_data \<and>
   fst (write_dicom_file_simple [''in.dcm'' \<mapsto> stale_file] ''out.dcm'' dummy_data) = 0 \<and>
   fst (snd (write_dicom_file_simple [''in.dcm'' \<mapsto> stale_file] ''out.dcm'' dummy_data))
     ''out.dcm'' = None"
proof -
  obtain rec where
    r: "read_dicom_file_simple [''in.dcm'' \<mapsto> stale_file] ''in.dcm'' blank_out = Some (0, rec)"
    using read_room [OF room_blank_out] by blast
  with image_record_read [OF r] show ?thesis
    by (simp add: write_dicom_file_simple_def)
qed

subsection \<open>Magic\<close>

text \<open>
  C2, as the code has it. The reader makes no magic check: for a file whose bytes
  128..132 are not \<^verbatim>\<open>DICM\<close>, such as 132 zero bytes, a call with room in its
  arrays returns 0 with the fixed record. No BadMagic error exists.
\<close>

theorem read_without_magic:
  assumes "fs filename = Some B" and "\<not> has_magic B" and "room out"
  shows "\<exists>rec. read_dicom_file_simple fs filename out = Some (0, rec) \<and>
               image_record rec = dummy_data"
proof -
  obtain rec where r: "read_dicom_file_simple fs filename out = Some (0, rec)"
    using read_room [OF assms(3)] by blast
  with image_record_read [OF r] show ?thesis by blast
qed

theorem read_without_magic_witness:
  "[''zeros.dcm'' \<mapsto> replicate 132 (0::byte)] ''zeros.dcm'' = Some (replicate 132 0) \<and>
   \<not> has_magic (replicate 132 0) \<and> room blank_out \<and>
   (\<exists>rec. read_dicom_file_simple [''zeros.dcm'' \<mapsto> replicate 132 0] ''zeros.dcm'' blank_out
             = Some (0, rec) \<and>
          image_record rec = dummy_data)"
proof -
  have f: "[''zeros.dcm'' \<mapsto> replicate 132 (0::byte)] ''zeros.dcm'' = Some (replicate 132 0)"
    by simp
  have "\<exists>rec. read_dicom_file_simple [''zeros.dcm'' \<mapsto> replicate 132 0] ''zeros.dcm'' blank_out
             = Some (0, rec) \<and>
          image_record rec = dummy_data"
    using f zeros_no_magic room_blank_out
    by (rule read_without_magic
        [of "[''zeros.dcm'' \<mapsto> replicate 132 0]" "''zeros.dcm''" "replicate 132 0" blank_out])
  with f zeros_no_magic room_blank_out show ?thesis
    by - (intro conjI, assumption+)
qed

text \<open>The claim as stated fails on 132 zero bytes: the call returns 0, not an error.\<close>

theorem bad_magic_counterexample:
  "\<not> has_magic (replicate 132 0) \<and>
   map_option fst
     (read_dicom_file_simple [''zeros.dcm'' \<mapsto> replicate 132 0] ''zeros.dcm'' blank_out)
     = Some 0"
  using zeros_no_magic
  by (simp add: read_dicom_file_simple_def strcpy_def blank_out_def)

subsection \<open>Truncated header\<close>

text \<open>
  C3, as the code has it. The reader makes no length check: for a file of fewer than
  132 bytes a call with room in its arrays returns 0 and produces the fixed record. No
  TruncatedHeader error exists.
\<close>

theorem read_truncated:
  assumes "fs filename = Some B" and "length B < 132" and "room out"
  shows "\<exists>rec. read_dicom_file_simple fs filename out = Some (0, rec) \<and>
               image_record rec = dummy_data"
proof -
  obtain rec where r: "read_dicom_file_simple fs filename out = Some (0, rec)"
    using read_room [OF assms(3)] by blast
  with image_record_read [OF r] show ?thesis by blast
qed

theorem read_truncated_witness:
  "[''short.dcm'' \<mapsto> replicate 131 (0::byte)] ''short.dcm'' = Some (replicate 131 0) \<and>
   length (replicate 131 (0::byte)) < 132 \<and> room blank_out \<and>
   (\<exists>rec. read_dicom_file_simple [''short.dcm'' \<mapsto> replicate 131 0] ''short.dcm'' blank_out
             = Some (0, rec) \<and>
          image_record rec = dummy_data)"
proof -
  have f: "[''short.dcm'' \<mapsto> replicate 131 (0::byte)] ''short.dcm'' = Some (replicate 131 0)"
    by simp
  have l: "length (replicate 131 (0::byte)) < 132"
    by simp
  have "\<exists>rec. read_dicom_file_simple [''short.dcm'' \<mapsto> replicate 131 0] ''short.dcm'' blank_out
             = Some (0, rec) \<and>
          image_record rec = dummy_data"
    using f l room_blank_out
    by (rule read_truncated
        [of "[''short.dcm'' \<mapsto> replicate 131 0]" "''short.dcm''" "replicate 131 0" blank_out])
  with f l room_blank_out show ?thesis
    by - (intro conjI, assumption+)
qed

text \<open>The claim as stated fails on an empty file: the call returns 0 with a record.\<close>

theorem truncated_header_counterexample:
  "length ([] :: byte list) < 132 \<and>
   map_option fst (read_dicom_file_simple [''empty.dcm'' \<mapsto> []] ''empty.dcm'' blank_out)
     = Some 0 \<and>
   map_option (image_record \<circ> snd)
     (read_dicom_file_simple [''empty.dcm'' \<mapsto> []] ''empty.dcm'' blank_out)
     = Some dummy_data"
proof -
  obtain rec where
    r: "read_dicom_file_simple [''empty.dcm'' \<mapsto> []] ''empty.dcm'' blank_out = Some (0, rec)"
    using read_room [OF room_blank_out] by blast
  with image_record_read [OF r] show ?thesis by simp
qed

subsection \<open>Pixel sizing\<close>

text \<open>
  C4, as the code has it. The specification's formula gives 524288 bytes for one
  512 by 512 frame of 16 bits and one sample, but no code compares a pixel buffer with
  it: the writer returns 0 and does nothing for such an image with a pixel buffer of
  any length, and the reader, with room in its arrays, returns 0 and reports 512, 512
  and 16 with a NULL pixel buffer of length 0. No PixelDataSizeMismatch exists.
\<close>

theorem no_pixel_size_check:
  "expected_pixel_length 512 512 16 1 1 = 524288 \<and>
   write_dicom_file_simple fs filename
       (a\<lparr>write_args.width := 512, write_args.height := 512,
          write_args.bits_allocated := 16, write_args.pixel_data := Some buf,
          write_args.pixel_data_length := n\<rparr>) =
     (0, fs, a\<lparr>write_args.width := 512, write_args.height := 512,
          write_args.bits_allocated := 16, write_args.pixel_data := Some buf,
          write_args.pixel_data_length := n\<rparr>) \<and>
   (room out \<longrightarrow>
     (\<exists>rec. read_dicom_file_simple fs filename out = Some (0, rec) \<and>
        width rec = 512 \<and> height rec = 512 \<and> bits_per_pixel rec = 16 \<and>
        pixel_data rec = None \<and> pixel_data_length rec = 0))"
  (is "?formula \<and> ?writer \<and> (_ \<longrightarrow> ?reader)")
proof (intro conjI impI)
  show ?formula
    by (simp add: expected_pixel_length_def)
next
  show ?writer
    by (simp add: write_dicom_file_simple_def)
next
  assume "room out"
  then obtain rec where r: "read_dicom_file_simple fs filename out = Some (0, rec)"
    using read_room by blast
  with read_Some_fields(8-12) [OF r] show ?reader
    by blast
qed

theorem no_pixel_size_check_witness:
  "room blank_out \<and>
   (\<exists>rec. read_dicom_file_simple Map.empty ''ct.dcm'' blank_out = Some (0, rec) \<and>
      width rec = 512 \<and> height rec = 512 \<and> bits_per_pixel rec = 16 \<and>
      pixel_data rec = None \<and> pixel_data_length rec = 0) \<and>
   fst (write_dicom_file_simple Map.empty ''ct.dcm''
     (dummy_data\<lparr>write_args.width := 512, write_args.height := 512,
        write_args.bits_allocated := 16, write_args.pixel_data := Some (replicate 524287 0),
        write_args.pixel_data_length := 524287\<rparr>)) = 0"
  using no_pixel_size_check
    [where fs = Map.empty and filename = "''ct.dcm''" and a = dummy_data
       and buf = "replicate 524287 0" and n = 524287 and out = blank_out]
    room_blank_out
  by simp

text \<open>
  The claim as stated fails on a buffer of 524287 bytes, one short of the formula for
  the image it comes with: the writer returns 0 as for any other buffer.
\<close>

theorem pixel_size_counterexample:
  "length (replicate 524287 (0::byte)) \<noteq>
     expected_pixel_length (unat (write_args.height dummy_data))
       (unat (write_args.width dummy_data)) (unat (write_args.bits_allocated dummy_data)) 1 1 \<and>
   write_dicom_file_simple Map.empty ''ct.dcm''
       (dummy_data\<lparr>write_args.pixel_data := Some (replicate 524287 0),
          write_args.pixel_data_length := 524287\<rparr>) =
     (0, Map.empty,
      dummy_data\<lparr>write_args.pixel_data := Some (replicate 524287 0),
          write_args.pixel_data_length := 524287\<rparr>)"
  by (simp add: write_dicom_file_simple_def expected_pixel_length_def dummy_data_def)

subsection \<open>UID validation\<close>

text \<open>
  C5, as the code has it. The writer takes every UID: it returns 0 for
  \<^verbatim>\<open>1.2.840.10008.1.1\<close>, which is well formed, and also for \<^verbatim>\<open>1.2..3\<close> and for
  every string of 65 characters, which are not. No InvalidUID error exists.
\<close>

theorem write_accepts_any_uid:
  "valid_uid ''1.2.840.10008.1.1'' \<and>
   fst (write_dicom_file_simple fs filename
     (a\<lparr>write_args.study_uid := ''1.2.840.10008.1.1''\<rparr>)) = 0 \<and>
   \<not> valid_uid ''1.2..3'' \<and>
   fst (write_dicom_file_simple fs filename (a\<lparr>write_args.study_uid := ''1.2..3''\<rparr>)) = 0 \<and>
   (length u = 65 \<longrightarrow>
      \<not> valid_uid u \<and>
      fst (write_dicom_file_simple fs filename
        (a\<lparr>write_args.study_uid := u, write_args.series_uid := u,
           write_args.instance_uid := u\<rparr>)) = 0)"
  using valid_sample_uid invalid_empty_component valid_uid_length [of u]
  by (auto simp: write_dicom_file_simple_def)

theorem write_accepts_any_uid_witness:
  "length (replicate 65 CHR ''1'') = 65 \<and>
   \<not> valid_uid (replicate 65 CHR ''1'') \<and>
   fst (write_dicom_file_simple Map.empty ''out.dcm''
     (dummy_data\<lparr>write_args.study_uid := replicate 65 CHR ''1'',
        write_args.series_uid := replicate 65 CHR ''1'',
        write_args.instance_uid := replicate 65 CHR ''1''\<rparr>)) = 0"
  using write_accepts_any_uid
    [where fs = Map.empty and filename = "''out.dcm''" and a = dummy_data
       and u = "replicate 65 CHR ''1''"]
  by simp

text \<open>The claim as stated fails on \<^verbatim>\<open>1.2..3\<close>: the writer returns 0 for it.\<close>

theorem invalid_uid_counterexample:
  "\<not> valid_uid ''1.2..3'' \<and>
   fst (write_dicom_file_simple Map.empty ''out.dcm''
     (dummy_data\<lparr>write_args.study_uid := ''1.2..3''\<rparr>)) = 0"
  using invalid_empty_component
  by (simp add: write_dicom_file_simple_def)

subsection \<open>UIDs of a result\<close>

text \<open>
  C6. Every UID in a result of the reader is well formed: the study, series and
  instance UID a caller reads back after a call that returned are dot-separated
  numeric components without leading zeros, of at most 64 characters.
\<close>

theorem read_uids_well_formed:
  assumes "read_dicom_file_simple fs filename out = Some (r, rec)"
  shows "valid_uid (c_str (study_uid rec)) \<and>
         valid_uid (c_str (series_uid rec)) \<and>
         valid_uid (c_str (instance_uid rec))"
proof -
  note f = read_Some_fields [OF assms]
  have "c_str (study_uid rec) = ''1.2.3.4.5''"
    using f(4) by (rule c_str_strcpy) (simp add: NUL_def)
  moreover have "c_str (series_uid rec) = ''1.2.3.4.5.1''"
    using f(5) by (rule c_str_strcpy) (simp add: NUL_def)
  moreover have "c_str (instance_uid rec) = ''1.2.3.4.5.1.1''"
    using f(6) by (rule c_str_strcpy) (simp add: NUL_def)
  ultimately show ?thesis
    using valid_study_uid valid_series_uid valid_instance_uid by simp
qed

theorem read_uids_well_formed_witness:
  "\<exists>rec. read_dicom_file_simple Map.empty ''scan.dcm'' blank_out = Some (0, rec) \<and>
     valid_uid (c_str (study_uid rec)) \<and>
     valid_uid (c_str (series_uid rec)) \<and>
     valid_uid (c_str (instance_uid rec))"
proof -
  obtain rec where
    r: "read_dicom_file_simple Map.empty ''scan.dcm'' blank_out = Some (0, rec)"
    using read_room [OF room_blank_out] by blast
  from read_uids_well_formed [OF r] r show ?thesis by blast
qed

subsection \<open>Group length\<close>

text \<open>
  C7, as the code has it. The writer writes nothing: it returns 0 and leaves the file
  system as it was, so the file it names holds what it held before. Where there was no
  file there is none afterwards, and no group-length element.
\<close>

theorem write_writes_nothing:
  assumes "write_dicom_file_simple fs filename a = (r, fs', a')"
  shows "r = 0 \<and> fs' = fs \<and>
         file_meta_group_length (file_bytes fs' filename) =
           file_meta_group_length (file_bytes fs filename) \<and>
         (fs filename = None \<longrightarrow>
            fs' filename = None \<and>
            file_meta_group_length (file_bytes fs' filename) = None)"
  using assms no_group_length_in_nothing
  by (auto simp: write_dicom_file_simple_def file_bytes_def)

theorem write_writes_nothing_witness:
  "write_dicom_file_simple Map.empty ''out.dcm'' dummy_data = (0, Map.empty, dummy_data) \<and>
   (Map.empty :: filesystem) ''out.dcm'' = None \<and>
   file_meta_group_length (file_bytes Map.empty ''out.dcm'') = None \<and>
   write_dicom_file_simple [''old.dcm'' \<mapsto> stale_file] ''old.dcm'' dummy_data =
     (0, [''old.dcm'' \<mapsto> stale_file], dummy_data) \<and>
   file_meta_group_length (file_bytes [''old.dcm'' \<mapsto> stale_file] ''old.dcm'') = Some 100"
proof -
  have w: "write_dicom_file_simple Map.empty ''out.dcm'' dummy_data =
      (0, Map.empty, dummy_data)"
    by (simp add: write_dicom_file_simple_def)
  have w': "write_dicom_file_simple [''old.dcm'' \<mapsto> stale_file] ''old.dcm'' dummy_data =
      (0, [''old.dcm'' \<mapsto> stale_file], dummy_data)"
    by (simp add: write_dicom_file_simple_def)
  have "file_bytes [''old.dcm'' \<mapsto> stale_file] ''old.dcm'' = stale_file"
    by (simp add: file_bytes_def)
  with write_writes_nothing [OF w] write_writes_nothing [OF w'] w w' stale_file_group_length
  show ?thesis
    by simp
qed

text \<open>
  The claim as stated fails on a write to a fresh name: afterwards there is no file,
  hence no group-length element of value 178.
\<close>

theorem group_length_counterexample:
  "fst (snd (write_dicom_file_simple Map.empty ''out.dcm'' dummy_data)) ''out.dcm'' = None \<and>
   file_meta_group_length
     (file_bytes (fst (snd (write_dicom_file_simple Map.empty ''out.dcm'' dummy_data)))
        ''out.dcm'') \<noteq> Some 178"
  by (simp add: write_dicom_file_simple_def file_bytes_def no_group_length_in_nothing)

subsection \<open>Return value of the reader\<close>

text \<open>
  C8. \<^verbatim>\<open>read_dicom_file_simple\<close> returns 0 for every file system and every file
  name, whether the file exists or not: a call whose arrays have room for the copied
  strings returns 0, and no call returns anything else.
\<close>

theorem read_returns_zero:
  "(room out \<longrightarrow> (\<exists>rec. read_dicom_file_simple fs filename out = Some (0, rec))) \<and>
   (\<forall>r rec. read_dicom_file_simple fs filename out = Some (r, rec) \<longrightarrow> r = 0)"
  using read_room [of out fs filename] read_Some_fields(1) [of fs filename out]
  by blast

theorem read_returns_zero_witness:
  "room blank_out \<and>
   (\<exists>rec. read_dicom_file_simple Map.empty ''missing.dcm'' blank_out = Some (0, rec))"
  using read_returns_zero [of blank_out Map.empty "''missing.dcm''"] room_blank_out
  by simp

subsection \<open>The file name is not used\<close>

text \<open>
  C9. The reader's outputs do not depend on \<^verbatim>\<open>filename\<close> (nor on the file
  system): two calls on the same out-parameters give the same result, and any two calls
  with room in their arrays return 0 and leave the values of the body in every output.
\<close>

theorem read_ignores_filename:
  "read_dicom_file_simple fs filename out = read_dicom_file_simple fs' filename' out \<and>
   (room out \<and> room out' \<longrightarrow>
     (\<exists>rec rec'.
        read_dicom_file_simple fs filename out = Some (0, rec) \<and>
        read_dicom_file_simple fs' filename' out' = Some (0, rec') \<and>
        image_record rec = image_record rec' \<and>
        image_record rec =
          \<lparr>write_args.patient_name = ''Test Patient'',
           write_args.patient_id = ''TEST001'',
           write_args.study_uid = ''1.2.3.4.5'',
           write_args.series_uid = ''1.2.3.4.5.1'',
           write_args.instance_uid = ''1.2.3.4.5.1.1'',
           write_args.modality = ''CT'',
           write_args.width = 512,
           write_args.height = 512,
           write_args.bits_allocated = 16,
           write_args.pixel_data = None,
           write_args.pixel_data_length = 0\<rparr>))"
  (is "?same \<and> (?rooms \<longrightarrow> ?outputs)")
proof (intro conjI impI)
  show ?same
    by (simp add: read_dicom_file_simple_def)
next
  assume ?rooms
  then obtain rec rec' where
    1: "read_dicom_file_simple fs filename out = Some (0, rec)" and
    2: "read_dicom_file_simple fs' filename' out' = Some (0, rec')"
    using read_room by blast
  from image_record_read [OF 1] image_record_read [OF 2] 1 2
  show ?outputs
    unfolding dummy_data_def by metis
qed

theorem read_ignores_filename_witness:
  "read_dicom_file_simple Map.empty ''a.dcm'' blank_out =
     read_dicom_file_simple Map.empty ''b.dcm'' blank_out \<and>
   room blank_out \<and>
   (\<exists>rec rec'.
      read_dicom_file_simple Map.empty ''a.dcm'' blank_out = Some (0, rec) \<and>
      read_dicom_file_simple Map.empty ''b.dcm'' blank_out = Some (0, rec') \<and>
      image_record rec = image_record rec' \<and>
      write_args.patient_name (image_record rec) = ''Test Patient'' \<and>
      write_args.pixel_data_length (image_record rec') = 0)"
proof -
  from read_ignores_filename
    [of Map.empty "''a.dcm''" blank_out Map.empty "''b.dcm''" blank_out] room_blank_out
  obtain rec rec' where
    "read_dicom_file_simple Map.empty ''a.dcm'' blank_out = Some (0, rec)"
    "read_dicom_file_simple Map.empty ''b.dcm'' blank_out = Some (0, rec')"
    "image_record rec = image_record rec'"
    "write_args.patient_name (image_record rec) = ''Test Patient''"
    "write_args.pixel_data_length (image_record rec') = 0"
    by auto
  with room_blank_out show ?thesis
    by (auto simp: read_dicom_file_simple_def)
qed

subsection \<open>The writer has no effect\<close>

text \<open>
  C10. \<^verbatim>\<open>write_dicom_file_simple\<close> returns 0 for every input and has no effect:
  the file system and the caller's memory behind the arguments come back as they were,
  also with a NULL \<^verbatim>\<open>pixel_data\<close> and any \<^verbatim>\<open>pixel_data_length\<close>, and the
  return value is the same for all arguments, so nothing is read from them.
\<close>

theorem write_no_effect:
  "write_dicom_file_simple fs filename a = (0, fs, a) \<and>
   write_dicom_file_simple fs filename
       (a\<lparr>write_args.pixel_data := None, write_args.pixel_data_length := n\<rparr>) =
     (0, fs, a\<lparr>write_args.pixel_data := None, write_args.pixel_data_length := n\<rparr>) \<and>
   fst (write_dicom_file_simple fs filename a) = fst (write_dicom_file_simple fs' filename' a')"
  by (simp add: write_dicom_file_simple_def)

end
